theory Spec2Isabelle
  imports Complex_Main
begin

section \<open>JavaScript values\<close>

text \<open>
  The values the client code handles: what \<open>JSON.parse\<close> returns for a response body,
  the \<open>data\<close> of an event, and \<open>undefined\<close> for a property that is not there.
  A number is kept by its value, which decides its truthiness, and by the string that
  \<open>String\<close> gives for it, which the platform computes.
  An object is its list of members in source order; on a repeated key the last member
  wins, as in \<open>JSON.parse\<close>.
\<close>

datatype js =
    JUndefined
  | JNull
  | JBool bool
  | JNum rat string
  | JStr string
  | JArr "js list"
  | JObj "(string \<times> js) list"

text \<open>ToBoolean: what \<open>v || w\<close>, \<open>!v\<close> and \<open>v ? a : b\<close> test.\<close>

fun truthy :: "js \<Rightarrow> bool" where
  "truthy JUndefined = False"
| "truthy JNull = False"
| "truthy (JBool b) = b"
| "truthy (JNum q s) = (q \<noteq> 0)"
| "truthy (JStr s) = (s \<noteq> [])"
| "truthy (JArr xs) = True"
| "truthy (JObj kvs) = True"

datatype js_exception =
    Error string        \<comment> \<open>an \<open>Error\<close> object, by its message\<close>
  | SyntaxError         \<comment> \<open>\<open>res.json()\<close> on a body that is not JSON\<close>
  | TypeError           \<comment> \<open>a property read on \<open>null\<close> or \<open>undefined\<close>; a value with no string
                            conversion; a rejected \<open>fetch\<close>\<close>

text \<open>
  Reading the property \<open>k\<close> of a value: \<open>v.k\<close>. It throws on \<open>null\<close> and
  \<open>undefined\<close>; the keys the code reads (\<open>detail\<close>, \<open>job_id\<close>) are on no
  prototype, so every value that is not an object has them \<open>undefined\<close>.
\<close>

fun get_prop :: "js \<Rightarrow> string \<Rightarrow> js_exception + js" where
  "get_prop JUndefined k = Inl TypeError"
| "get_prop JNull k = Inl TypeError"
| "get_prop (JObj kvs) k = Inr (case map_of (rev kvs) k of None \<Rightarrow> JUndefined | Some v \<Rightarrow> v)"
| "get_prop v k = Inr JUndefined"

text \<open>
  ToString: \<open>String(v)\<close>. An array is its elements joined by commas, with \<open>null\<close>
  and \<open>undefined\<close> elements empty. An object read from JSON is \<open>[object Object]\<close>;
  when it has a member \<open>toString\<close> of its own, which is never a function, no method
  gives a primitive and the conversion throws a \<open>TypeError\<close>: the result \<open>None\<close>.
\<close>

fun join :: "string \<Rightarrow> string list \<Rightarrow> string" where
  "join sep [] = []"
| "join sep [x] = x"
| "join sep (x # y # ys) = x @ sep @ join sep (y # ys)"

fun to_string :: "js \<Rightarrow> string option" where
  "to_string JUndefined = Some ''undefined''"
| "to_string JNull = Some ''null''"
| "to_string (JBool b) = Some (if b then ''true'' else ''false'')"
| "to_string (JNum q s) = Some s"
| "to_string (JStr s) = Some s"
| "to_string (JArr xs) =
     map_option (join '','')
       (those (map (\<lambda>x. if x = JUndefined \<or> x = JNull then Some [] else to_string x) xs))"
| "to_string (JObj kvs) =
     (if ''toString'' \<in> set (map fst kvs) then None else Some ''[object Object]'')"

text \<open>
  What \<open>throw new Error(v)\<close> throws: the error whose message is \<open>v\<close> as a string
  (the empty message for \<open>undefined\<close>), or the \<open>TypeError\<close> of the conversion.
\<close>

definition new_Error :: "js \<Rightarrow> js_exception" where
  "new_Error v =
     (if v = JUndefined then Error []
      else case to_string v of None \<Rightarrow> TypeError | Some m \<Rightarrow> Error m)"


section \<open>The event stream of a job: \<open>useJobSSE\<close>\<close>

text \<open>
  An event dispatched at the \<open>EventSource\<close>: its type and its \<open>data\<close>. A block of the
  stream with data \<open>d\<close> and event name \<open>t\<close> arrives as a \<open>MessageEvent\<close> of type
  \<open>t\<close> (type \<open>message\<close> when the block names none) whose data is the string \<open>d\<close>.
  The browser's own \<open>open\<close> and \<open>error\<close> events are plain events: their \<open>data\<close> is
  \<open>undefined\<close>.
\<close>

record dom_event =
  ev_type :: string
  ev_data :: js

definition sse_event :: "string \<Rightarrow> string \<Rightarrow> dom_event" where
  "sse_event t d = \<lparr>ev_type = (if t = [] then ''message'' else t), ev_data = JStr d\<rparr>"

definition message_event :: "string \<Rightarrow> dom_event" where
  "message_event d = sse_event [] d"

definition open_event :: dom_event where
  "open_event = \<lparr>ev_type = ''open'', ev_data = JUndefined\<rparr>"

definition connection_error :: dom_event where
  "connection_error = \<lparr>ev_type = ''error'', ev_data = JUndefined\<rparr>"

datatype sse_status = Connecting | Streaming | Done | Failed

text \<open>
  The state of the hook: its three \<open>useState\<close> cells, and whether the \<open>EventSource\<close>
  it created is still live, that is, \<open>es.close()\<close> has not been called on it.
\<close>

record sse =
  lines :: "js list"
  status :: sse_status
  error :: js
  es_open :: bool

text \<open>The body of the effect for a job id that is set: reset the cells, open the stream.\<close>

definition useJobSSE_start :: sse where
  "useJobSSE_start = \<lparr>lines = [], status = Connecting, error = JNull, es_open = True\<rparr>"

text \<open>The five handlers, in the order the effect installs them.\<close>

definition onopen :: "dom_event \<Rightarrow> sse \<Rightarrow> sse" where
  "onopen e st = st\<lparr>status := Streaming\<rparr>"

definition onmessage :: "dom_event \<Rightarrow> sse \<Rightarrow> sse" where
  "onmessage e st = st\<lparr>lines := lines st @ [ev_data e]\<rparr>"

definition error_listener :: "dom_event \<Rightarrow> sse \<Rightarrow> sse" where
  "error_listener e st = st\<lparr>error := ev_data e\<rparr>"

definition done_listener :: "dom_event \<Rightarrow> sse \<Rightarrow> sse" where
  "done_listener e st =
     st\<lparr>status := (if ev_data e = JStr ''completed'' then Done else Failed), es_open := False\<rparr>"

definition onerror :: "dom_event \<Rightarrow> sse \<Rightarrow> sse" where
  "onerror e st = st\<lparr>status := Failed, es_open := False\<rparr>"

text \<open>
  The listener list of the \<open>EventSource\<close> once the effect has run. \<open>es.onopen\<close>,
  \<open>es.onmessage\<close> and \<open>es.onerror\<close> are the handlers of the event types \<open>open\<close>,
  \<open>message\<close> and \<open>error\<close>; \<open>addEventListener\<close> adds a listener for the type it
  names. A handler takes its place in the list when it is first set.
\<close>

definition listeners :: "(string \<times> (dom_event \<Rightarrow> sse \<Rightarrow> sse)) list" where
  "listeners =
     [(''open'', onopen),
      (''message'', onmessage),
      (''error'', error_listener),
      (''done'', done_listener),
      (''error'', onerror)]"

text \<open>
  Dispatching one event: a closed \<open>EventSource\<close> dispatches nothing; a live one runs
  every listener registered for the event's type, in registration order. The listeners
  are chosen by the type alone, and all of them run even when one closes the stream.
\<close>

fun run_listeners :: "(string \<times> (dom_event \<Rightarrow> sse \<Rightarrow> sse)) list \<Rightarrow> dom_event \<Rightarrow> sse \<Rightarrow> sse" where
  "run_listeners [] e st = st"
| "run_listeners ((t, h) # ls) e st =
     run_listeners ls e (if t = ev_type e then h e st else st)"

definition dispatch :: "dom_event \<Rightarrow> sse \<Rightarrow> sse" where
  "dispatch e st = (if es_open st then run_listeners listeners e st else st)"

text \<open>The events of a stream, one after the other.\<close>

fun useJobSSE_run :: "dom_event list \<Rightarrow> sse \<Rightarrow> sse" where
  "useJobSSE_run [] st = st"
| "useJobSSE_run (e # es) st = useJobSSE_run es (dispatch e st)"

text \<open>The events of a stream that reach the listeners: those that come while it is live.\<close>

fun delivered :: "sse \<Rightarrow> dom_event list \<Rightarrow> dom_event list" where
  "delivered st [] = []"
| "delivered st (e # es) = (if es_open st then e # delivered (dispatch e st) es else [])"

text \<open>The cleanup of the effect.\<close>

definition useJobSSE_cleanup :: "sse \<Rightarrow> sse" where
  "useJobSSE_cleanup st = st\<lparr>es_open := False\<rparr>"


section \<open>The progress view and the page: \<open>JobProgress\<close>, \<open>Home\<close>\<close>

datatype outcome = Completed | JobFailed

datatype job_status = Running | Finished outcome

text \<open>
  The state cells of \<open>Home\<close>. \<open>configLoaded\<close> says that \<open>config\<close> is not
  \<open>null\<close>; a job id is a string or \<open>null\<close>.
\<close>

record page =
  authChecked :: bool
  configLoaded :: bool
  jobId :: "string option"
  jobDone :: bool
  jobStatus :: job_status

definition handleJobStarted :: "string \<Rightarrow> page \<Rightarrow> page" where
  "handleJobStarted ident p = p\<lparr>jobId := Some ident, jobDone := False, jobStatus := Running\<rparr>"

definition handleDone :: "outcome \<Rightarrow> page \<Rightarrow> page" where
  "handleDone oc p = p\<lparr>jobDone := True, jobStatus := Finished oc\<rparr>"

text \<open>The click handler of the link "Start new job".\<close>

definition startNewJob :: "page \<Rightarrow> page" where
  "startNewJob p = p\<lparr>jobId := None\<rparr>"

text \<open>
  What \<open>Home\<close> renders: the spinner, the form, or the progress view, which carries the
  download button and the failure banner under the conditions of the two flags.
  \<open>!jobId\<close> holds for \<open>null\<close> and for the empty string.
\<close>

datatype view =
    Spinner
  | FormView
  | ProgressView (download_button: bool) (failure_banner: bool)

definition render :: "page \<Rightarrow> view" where
  "render p =
     (if \<not> authChecked p \<or> \<not> configLoaded p then Spinner
      else if jobId p = None \<or> jobId p = Some [] then FormView
      else ProgressView
             (jobDone p \<and> jobStatus p = Finished Completed)
             (jobDone p \<and> jobStatus p = Finished JobFailed))"

definition offers_download :: "page \<Rightarrow> bool" where
  "offers_download p = (case render p of ProgressView d f \<Rightarrow> d | _ \<Rightarrow> False)"

text \<open>The effect of \<open>JobProgress\<close> that reports the end of the stream to the page.\<close>

definition JobProgress_effect :: "sse_status \<Rightarrow> page \<Rightarrow> page" where
  "JobProgress_effect s p =
     (if s = Done then handleDone Completed p
      else if s = Failed then handleDone JobFailed p
      else p)"

text \<open>
  The page and the hook together, over the events of the stream of the job on display.
  The effect depends on \<open>status\<close> (and on \<open>onDone\<close>, which \<open>useCallback\<close> keeps
  fixed), so it runs after an event that changed the status.
\<close>

fun run_job :: "dom_event list \<Rightarrow> page \<times> sse \<Rightarrow> page \<times> sse" where
  "run_job [] ps = ps"
| "run_job (e # es) (p, st) =
     (let st' = dispatch e st
      in run_job es (if status st' \<noteq> status st then JobProgress_effect (status st') p else p, st'))"


section \<open>The server's side of the stream\<close>

text \<open>
  Modelled from the spec: the server that emits the event stream of a job is not among
  the client sources. Section 6 of the specification gives the stream as zero or more
  plain-text log lines, an \<open>error\<close> event with a message for each warning in mid-job,
  and exactly one terminal \<open>done\<close> event whose payload is \<open>completed\<close> or
  \<open>failed\<close>, after which the stream closes.
\<close>

datatype emission = LogLine string | Warning string

fun emit :: "emission \<Rightarrow> dom_event" where
  "emit (LogLine l) = message_event l"
| "emit (Warning m) = sse_event ''error'' m"

fun outcome_payload :: "outcome \<Rightarrow> string" where
  "outcome_payload Completed = ''completed''"
| "outcome_payload JobFailed = ''failed''"

definition job_stream :: "emission list \<Rightarrow> outcome \<Rightarrow> dom_event list" where
  "job_stream body oc = map emit body @ [sse_event ''done'' (outcome_payload oc)]"


section \<open>Stored credentials and the API client: \<open>auth.ts\<close>, \<open>api.ts\<close>\<close>

definition TOKEN_KEY :: string where
  "TOKEN_KEY = ''yt_token''"

definition EMAIL_KEY :: string where
  "EMAIL_KEY = ''yt_email''"

text \<open>What the code touches of the browser: \<open>localStorage\<close> and \<open>window.location.href\<close>.\<close>

record browser =
  localStorage :: "string \<rightharpoonup> string"
  href :: string

definition getToken :: "browser \<Rightarrow> string option" where
  "getToken w = localStorage w TOKEN_KEY"

definition getEmail :: "browser \<Rightarrow> string option" where
  "getEmail w = localStorage w EMAIL_KEY"

definition logout :: "browser \<Rightarrow> browser" where
  "logout w = w\<lparr>localStorage := (localStorage w)(TOKEN_KEY := None, EMAIL_KEY := None)\<rparr>"

text \<open>
  A response: its status code, and its body as \<open>res.json()\<close> reads it (\<open>None\<close> for a
  body that is not JSON). \<open>res.ok\<close> is the status being in the range 200 to 299.
\<close>

record response =
  res_status :: nat
  res_body :: "js option"

definition ok :: "response \<Rightarrow> bool" where
  "ok res = (200 \<le> res_status res \<and> res_status res \<le> 299)"

definition res_json :: "response \<Rightarrow> js_exception + js" where
  "res_json res = (case res_body res of None \<Rightarrow> Inl SyntaxError | Some v \<Rightarrow> Inr v)"

definition handleResponse :: "response \<Rightarrow> browser \<Rightarrow> (js_exception + response) \<times> browser" where
  "handleResponse res w =
     (if res_status res = 401 \<or> res_status res = 403
      then (Inl (Error ''Session expired''), (logout w)\<lparr>href := ''/login''\<rparr>)
      else (Inr res, w))"

text \<open>
  The three calls that go through \<open>handleResponse\<close>. The request a call sends does
  not enter into what it does with the answer, so a call is modelled from the end of its
  \<open>fetch\<close> on: the argument \<open>fetched\<close> is the exception the \<open>fetch\<close> was rejected
  with, or the response. What the call returns on success is the parsed body, unchecked.

  \<open>submitDub\<close> and \<open>submitStory\<close> have the same body but for the URL and the
  fallback message of the error; \<open>submit\<close> is that body.
\<close>

definition submit :: "string \<Rightarrow> (js_exception + response) \<Rightarrow> browser \<Rightarrow> (js_exception + js) \<times> browser" where
  "submit fallback fetched w =
     (case fetched of
        Inl e \<Rightarrow> (Inl e, w)
      | Inr r \<Rightarrow>
          (case handleResponse r w of
             (Inl e, w') \<Rightarrow> (Inl e, w')
           | (Inr res, w') \<Rightarrow>
               if \<not> ok res then
                 (case res_json res of
                    Inl e \<Rightarrow> (Inl e, w')
                  | Inr err \<Rightarrow>
                      (case get_prop err ''detail'' of
                         Inl e \<Rightarrow> (Inl e, w')
                       | Inr d \<Rightarrow> (Inl (new_Error (if truthy d then d else JStr fallback)), w')))
               else (res_json res, w')))"

definition submitDub :: "(js_exception + response) \<Rightarrow> browser \<Rightarrow> (js_exception + js) \<times> browser" where
  "submitDub = submit ''Failed to submit dub job''"

definition submitStory :: "(js_exception + response) \<Rightarrow> browser \<Rightarrow> (js_exception + js) \<times> browser" where
  "submitStory = submit ''Failed to submit story job''"

definition getJob :: "(js_exception + response) \<Rightarrow> browser \<Rightarrow> (js_exception + js) \<times> browser" where
  "getJob fetched w =
     (case fetched of
        Inl e \<Rightarrow> (Inl e, w)
      | Inr r \<Rightarrow>
          (case handleResponse r w of
             (Inl e, w') \<Rightarrow> (Inl e, w')
           | (Inr res, w') \<Rightarrow>
               if \<not> ok res then (Inl (Error ''Failed to fetch job''), w')
               else (res_json res, w')))"


section \<open>The forms: \<open>DubForm\<close>, \<open>StoryForm\<close>\<close>





datatype story_mode = ThemeMode | TextMode

text \<open>The state cells of \<open>StoryForm\<close> that go into the request.\<close>

record story_form =
  form_mode :: story_mode
  form_theme :: string
  form_keyword :: string
  form_text :: string
  form_targetLang :: string
  form_speaker :: string
  form_mood :: string

text \<open>The parameter object of \<open>submitStory\<close>; \<open>None\<close> is a field that is \<open>undefined\<close>.\<close>

record story_params =
  story_text :: "string option"
  theme :: "string option"
  keyword :: "string option"
  target_lang :: string
  speaker :: "string option"
  mood :: "string option"
  no_upload :: "bool option"
  workers :: "nat option"

text \<open>The object that \<open>handleSubmit\<close> of \<open>StoryForm\<close> passes to \<open>submitStory\<close>.\<close>

definition StoryForm_params :: "story_form \<Rightarrow> story_params" where
  "StoryForm_params f =
     \<lparr>story_text = (if form_mode f = TextMode then Some (form_text f) else None),
      theme = (if form_mode f = ThemeMode then Some (form_theme f) else None),
      keyword = (if form_mode f = ThemeMode \<and> form_keyword f \<noteq> [] then Some (form_keyword f) else None),
      target_lang = form_targetLang f,
      speaker = (if form_speaker f \<noteq> [] then Some (form_speaker f) else None),
      mood = Some (form_mood f),
      no_upload = Some True,
      workers = None\<rparr>"

text \<open>
  \<open>String.prototype.trim\<close> on the characters a \<open>string\<close> of this theory can hold:
  tab, line feed, vertical tab, form feed, carriage return, space and no-break space.
\<close>

definition is_space :: "char \<Rightarrow> bool" where
  "is_space c = (of_char c \<in> {9, 10, 11, 12, 13, 32, 160 :: nat})"

definition trim :: "string \<Rightarrow> string" where
  "trim s = rev (dropWhile is_space (rev (dropWhile is_space s)))"

text \<open>The submit button is disabled while \<open>isValid\<close> is false.\<close>

definition isValid :: "story_form \<Rightarrow> bool" where
  "isValid f = (if form_mode f = TextMode then length (trim (form_text f)) > 0 else True)"


section \<open>An invariant of the page and the hook\<close>

text \<open>
  While the stream is live it is connecting or streaming and the page has not been told
  of an end; once it is closed by a handler, the status of the hook and the outcome the
  page holds agree.
\<close>

definition in_step :: "page \<times> sse \<Rightarrow> bool" where
  "in_step ps =
     (case ps of (p, st) \<Rightarrow>
        (if es_open st then (status st = Connecting \<or> status st = Streaming) \<and> \<not> jobDone p
         else (status st = Done \<and> jobDone p \<and> jobStatus p = Finished Completed)
            \<or> (status st = Failed \<and> jobDone p \<and> jobStatus p = Finished JobFailed)))"


section \<open>Properties of the event stream\<close>

lemma dispatch_closed: "\<not> es_open st \<Longrightarrow> dispatch e st = st"
  by (simp add: dispatch_def)

lemma run_closed: "\<not> es_open st \<Longrightarrow> useJobSSE_run evs st = st"
  by (induction evs) (simp_all add: dispatch_closed)

lemma dispatch_open:
  "es_open st \<Longrightarrow> dispatch e st =
     (if ev_type e = ''open'' then onopen e st
      else if ev_type e = ''message'' then onmessage e st
      else if ev_type e = ''done'' then done_listener e st
      else if ev_type e = ''error'' then onerror e (error_listener e st)
      else st)"
  by (simp add: dispatch_def listeners_def)

lemma lines_dispatch:
  "lines (dispatch e st) =
     (if es_open st \<and> ev_type e = ''message'' then lines st @ [ev_data e] else lines st)"
  by (cases "es_open st")
     (simp_all add: dispatch_open dispatch_closed onopen_def onmessage_def done_listener_def
        onerror_def error_listener_def)

lemma lines_run:
  "lines (useJobSSE_run evs st) =
     lines st @ map ev_data (filter (\<lambda>e. ev_type e = ''message'') (delivered st evs))"
proof (induction evs arbitrary: st)
  case Nil
  show ?case by simp
next
  case (Cons e evs)
  show ?case
  proof (cases "es_open st")
    case True
    then show ?thesis by (simp add: Cons.IH lines_dispatch)
  next
    case False
    then show ?thesis by (simp add: dispatch_closed run_closed)
  qed
qed

lemma delivered_closed: "\<not> es_open st \<Longrightarrow> delivered st evs = []"
  by (cases evs) simp_all

lemma status_dispatch_open:
  "es_open st \<Longrightarrow> status (dispatch e st) =
     (if ev_type e = ''open'' then Streaming
      else if ev_type e = ''done'' then (if ev_data e = JStr ''completed'' then Done else Failed)
      else if ev_type e = ''error'' then Failed
      else status st)"
  by (simp add: dispatch_open onopen_def onmessage_def done_listener_def onerror_def error_listener_def)

lemma es_open_dispatch:
  "es_open (dispatch e st) = (es_open st \<and> ev_type e \<noteq> ''done'' \<and> ev_type e \<noteq> ''error'')"
  by (cases "es_open st")
     (simp_all add: dispatch_open dispatch_closed onopen_def onmessage_def done_listener_def
        onerror_def error_listener_def)

lemma done_delivered_at_most_once:
  "length (filter (\<lambda>e. ev_type e = ''done'') (delivered st evs)) \<le> 1"
proof (induction evs arbitrary: st)
  case Nil
  show ?case by simp
next
  case (Cons e evs)
  show ?case
  proof (cases "es_open st \<and> ev_type e = ''done''")
    case True
    then have "\<not> es_open (dispatch e st)" by (simp add: es_open_dispatch)
    then have "delivered (dispatch e st) evs = []" by (rule delivered_closed)
    with True show ?thesis by simp
  next
    case False
    then show ?thesis using Cons.IH [of "dispatch e st"] by auto
  qed
qed

lemma status_run_Done:
  "(status st = Done \<longrightarrow> \<not> es_open st) \<Longrightarrow>
   status (useJobSSE_run evs st) = Done \<longleftrightarrow>
     (status st = Done \<or> (\<exists>d \<in> set (delivered st evs). ev_type d = ''done'' \<and> ev_data d = JStr ''completed''))"
proof (induction evs arbitrary: st)
  case Nil
  show ?case by simp
next
  case (Cons e evs)
  show ?case
  proof (cases "es_open st")
    case False
    then show ?thesis by (simp add: dispatch_closed run_closed)
  next
    case True
    with Cons.prems have nd: "status st \<noteq> Done" by blast
    have pre: "status (dispatch e st) = Done \<longrightarrow> \<not> es_open (dispatch e st)"
      using True nd by (auto simp add: status_dispatch_open es_open_dispatch split: if_splits)
    have here: "status (dispatch e st) = Done \<longleftrightarrow> (ev_type e = ''done'' \<and> ev_data e = JStr ''completed'')"
      using True nd by (auto simp add: status_dispatch_open)
    show ?thesis
      using Cons.IH [OF pre] True nd here by auto
  qed
qed


lemma named_error_dispatch:
  "es_open st \<Longrightarrow>
   dispatch (sse_event ''error'' m) st = st\<lparr>error := JStr m, status := Failed, es_open := False\<rparr>"
  by (simp add: dispatch_open sse_event_def onerror_def error_listener_def)

lemma run_append: "useJobSSE_run (xs @ ys) st = useJobSSE_run ys (useJobSSE_run xs st)"
  by (induction xs arbitrary: st) simp_all

lemma done_listener_dispatch:
  "es_open st \<Longrightarrow> ev_type e = ''done'' \<Longrightarrow>
   dispatch e st = st\<lparr>status := (if ev_data e = JStr ''completed'' then Done else Failed), es_open := False\<rparr>"
  by (simp add: dispatch_open done_listener_def)

lemma emit_not_done: "ev_type (emit x) \<noteq> ''done''"
  by (cases x) (simp_all add: message_event_def sse_event_def)

lemma job_stream_done:
  "filter (\<lambda>e. ev_type e = ''done'') (job_stream body oc) = [sse_event ''done'' (outcome_payload oc)]"
  by (simp add: job_stream_def emit_not_done sse_event_def)

lemma job_stream_last: "last (job_stream body oc) = sse_event ''done'' (outcome_payload oc)"
  by (simp add: job_stream_def)

lemma snd_run_job: "snd (run_job evs (p, st)) = useJobSSE_run evs st"
  by (induction evs arbitrary: p st) (simp_all add: Let_def)

lemma in_step_run_job: "in_step (p, st) \<Longrightarrow> in_step (run_job evs (p, st))"
proof (induction evs arbitrary: p st)
  case Nil
  then show ?case by simp
next
  case (Cons e evs)
  show ?case
  proof (cases "es_open st")
    case False
    then have "run_job (e # evs) (p, st) = run_job evs (p, st)"
      by (simp add: dispatch_closed)
    with Cons show ?thesis by simp
  next
    case True
    let ?st = "dispatch e st"
    let ?p = "if status ?st \<noteq> status st then JobProgress_effect (status ?st) p else p"
    have "in_step (?p, ?st)"
      using True Cons.prems
      by (auto simp add: in_step_def status_dispatch_open es_open_dispatch
            JobProgress_effect_def handleDone_def)
    then have "in_step (run_job evs (?p, ?st))" by (rule Cons.IH)
    then show ?thesis by (simp add: Let_def)
  qed
qed

lemma run_job_frame:
  "run_job evs (p, st) = (p', st') \<Longrightarrow>
   authChecked p' = authChecked p \<and> configLoaded p' = configLoaded p \<and> jobId p' = jobId p"
proof (induction evs arbitrary: p st)
  case Nil
  then show ?case by simp
next
  case (Cons e evs)
  let ?st = "dispatch e st"
  let ?p = "if status ?st \<noteq> status st then JobProgress_effect (status ?st) p else p"
  from Cons.prems have "run_job evs (?p, ?st) = (p', st')" by (simp add: Let_def)
  from Cons.IH [OF this] show ?case
    by (simp add: JobProgress_effect_def handleDone_def split: if_splits)
qed

lemma in_step_started: "in_step (handleJobStarted ident p, useJobSSE_start)"
  by (simp add: in_step_def handleJobStarted_def useJobSSE_start_def)

lemma offers_download_iff:
  "offers_download p \<longleftrightarrow>
     authChecked p \<and> configLoaded p \<and> jobId p \<noteq> None \<and> jobId p \<noteq> Some [] \<and>
     jobDone p \<and> jobStatus p = Finished Completed"
  by (auto simp add: offers_download_def render_def)

lemma run_job_closed: "\<not> es_open st \<Longrightarrow> run_job evs (p, st) = (p, st)"
  by (induction evs) (simp_all add: dispatch_closed)


text \<open>
  The terminal event. The stream of the specification holds exactly one \<open>done\<close>
  event, the last one, with payload \<open>completed\<close> or \<open>failed\<close>. The client takes at
  most one \<open>done\<close> event from any stream; one that reaches it sets the status to done
  exactly when its data is \<open>completed\<close> and to failed otherwise, closes the
  \<open>EventSource\<close> and changes nothing else, and nothing after it is delivered. A
  client that is still listening after the body of the stream ends with the server's
  outcome.
\<close>

lemma done_event_reaction:
  "(filter (\<lambda>e. ev_type e = ''done'') (job_stream body oc) = [last (job_stream body oc)]
     \<and> ev_type (last (job_stream body oc)) = ''done''
     \<and> (ev_data (last (job_stream body oc)) = JStr ''completed''
          \<or> ev_data (last (job_stream body oc)) = JStr ''failed''))
   \<and> length (filter (\<lambda>e. ev_type e = ''done'') (delivered st evs)) \<le> 1
   \<and> (es_open st \<and> ev_type e = ''done'' \<longrightarrow>
        dispatch e st =
          st\<lparr>status := (if ev_data e = JStr ''completed'' then Done else Failed), es_open := False\<rparr>
        \<and> JobProgress_effect (status (dispatch e st)) p =
          handleDone (if ev_data e = JStr ''completed'' then Completed else JobFailed) p
        \<and> delivered (dispatch e st) evs = []
        \<and> useJobSSE_run evs (dispatch e st) = dispatch e st)
   \<and> (es_open (useJobSSE_run (map emit body) st) \<longrightarrow>
        status (useJobSSE_run (job_stream body oc @ evs) st) =
          (if oc = Completed then Done else Failed)
        \<and> \<not> es_open (useJobSSE_run (job_stream body oc @ evs) st))"
proof -
  have a: "filter (\<lambda>e. ev_type e = ''done'') (job_stream body oc) = [last (job_stream body oc)]"
    by (simp add: job_stream_done job_stream_last)
  have b: "ev_type (last (job_stream body oc)) = ''done''
     \<and> (ev_data (last (job_stream body oc)) = JStr ''completed''
          \<or> ev_data (last (job_stream body oc)) = JStr ''failed'')"
    by (cases oc) (simp_all add: job_stream_last sse_event_def)
  have c: "length (filter (\<lambda>e. ev_type e = ''done'') (delivered st evs)) \<le> 1"
    by (rule done_delivered_at_most_once)
  have d: "dispatch e st =
          st\<lparr>status := (if ev_data e = JStr ''completed'' then Done else Failed), es_open := False\<rparr>
        \<and> JobProgress_effect (status (dispatch e st)) p =
          handleDone (if ev_data e = JStr ''completed'' then Completed else JobFailed) p
        \<and> delivered (dispatch e st) evs = []
        \<and> useJobSSE_run evs (dispatch e st) = dispatch e st"
    if "es_open st" and "ev_type e = ''done''"
  proof -
    have eq: "dispatch e st =
          st\<lparr>status := (if ev_data e = JStr ''completed'' then Done else Failed), es_open := False\<rparr>"
      using that by (rule done_listener_dispatch)
    have cl: "\<not> es_open (dispatch e st)" by (simp add: eq)
    have ef: "JobProgress_effect (status (dispatch e st)) p =
          handleDone (if ev_data e = JStr ''completed'' then Completed else JobFailed) p"
      by (simp add: eq JobProgress_effect_def)
    show ?thesis using eq ef delivered_closed [OF cl] run_closed [OF cl] by blast
  qed
  have f: "status (useJobSSE_run (job_stream body oc @ evs) st) =
          (if oc = Completed then Done else Failed)
        \<and> \<not> es_open (useJobSSE_run (job_stream body oc @ evs) st)"
    if live: "es_open (useJobSSE_run (map emit body) st)"
  proof -
    let ?s = "useJobSSE_run (map emit body) st"
    let ?d = "sse_event ''done'' (outcome_payload oc)"
    have ty: "ev_type ?d = ''done''" by (simp add: sse_event_def)
    have eq: "dispatch ?d ?s =
          ?s\<lparr>status := (if ev_data ?d = JStr ''completed'' then Done else Failed), es_open := False\<rparr>"
      using live ty by (rule done_listener_dispatch)
    have cl: "\<not> es_open (dispatch ?d ?s)" by (simp add: eq)
    have "useJobSSE_run (job_stream body oc @ evs) st = useJobSSE_run evs (dispatch ?d ?s)"
      by (simp add: job_stream_def run_append)
    also have "\<dots> = dispatch ?d ?s" using cl by (rule run_closed)
    finally have r: "useJobSSE_run (job_stream body oc @ evs) st = dispatch ?d ?s" .
    have dv: "ev_data ?d = JStr (outcome_payload oc)" by (simp add: sse_event_def)
    have pl: "(outcome_payload oc = ''completed'') = (oc = Completed)" by (cases oc) simp_all
    have "status (dispatch ?d ?s) = (if oc = Completed then Done else Failed)"
      by (subst eq) (simp add: dv pl)
    with cl show ?thesis unfolding r by blast
  qed
  from a b c d f show ?thesis by blast
qed

text \<open>
  A warning in the body of the stream closes the client before the terminal event: no
  \<open>done\<close> event is delivered and the status ends failed, whatever the outcome.
\<close>

lemma set_delivered: "set (delivered st evs) \<subseteq> set evs"
  by (induction evs arbitrary: st) auto

lemma delivered_append:
  "delivered st (xs @ ys) = delivered st xs @ delivered (useJobSSE_run xs st) ys"
proof (induction xs arbitrary: st)
  case Nil
  show ?case by simp
next
  case (Cons x xs)
  show ?case
  proof (cases "es_open st")
    case True
    then show ?thesis by (simp add: Cons.IH)
  next
    case False
    then show ?thesis by (simp add: dispatch_closed run_closed delivered_closed)
  qed
qed

lemma warning_closes:
  "es_open st \<Longrightarrow> Warning m \<in> set body \<Longrightarrow>
   \<not> es_open (useJobSSE_run (map emit body) st) \<and> status (useJobSSE_run (map emit body) st) = Failed"
proof (induction body arbitrary: st)
  case Nil
  then show ?case by simp
next
  case (Cons x xs)
  show ?case
  proof (cases x)
    case (LogLine l)
    with Cons.prems have o: "es_open (dispatch (emit x) st)" and w: "Warning m \<in> set xs"
      by (simp_all add: es_open_dispatch message_event_def sse_event_def)
    from Cons.IH [OF o w] show ?thesis by simp
  next
    case (Warning m')
    with Cons.prems have d: "dispatch (emit x) st = st\<lparr>error := JStr m', status := Failed, es_open := False\<rparr>"
      by (simp add: named_error_dispatch)
    then have c: "\<not> es_open (dispatch (emit x) st)" by simp
    show ?thesis using run_closed [OF c, of "map emit xs"] d by simp
  qed
qed

lemma warning_hides_done:
  assumes "es_open st" and "Warning m \<in> set body"
  shows "filter (\<lambda>e. ev_type e = ''done'') (delivered st (job_stream body oc @ evs)) = []
       \<and> status (useJobSSE_run (job_stream body oc @ evs) st) = Failed"
proof -
  let ?s = "useJobSSE_run (map emit body) st"
  from warning_closes [OF assms] have c: "\<not> es_open ?s" and f: "status ?s = Failed" by blast+
  have "delivered st (job_stream body oc @ evs) = delivered st (map emit body)"
    using c by (simp add: job_stream_def delivered_append delivered_closed)
  moreover have "\<forall>e \<in> set (delivered st (map emit body)). ev_type e \<noteq> ''done''"
    using set_delivered [of st "map emit body"] emit_not_done by auto
  ultimately have a: "filter (\<lambda>e. ev_type e = ''done'') (delivered st (job_stream body oc @ evs)) = []"
    by (simp add: filter_empty_conv)
  have "useJobSSE_run (job_stream body oc @ evs) st =
      useJobSSE_run (sse_event ''done'' (outcome_payload oc) # evs) ?s"
    by (simp add: job_stream_def run_append)
  also have "\<dots> = ?s" using c by (rule run_closed)
  finally have "useJobSSE_run (job_stream body oc @ evs) st = ?s" .
  with f a show ?thesis by simp
qed


section \<open>Properties of the API client and the forms\<close>

lemma handleResponse_unauthorized:
  "res_status res = 401 \<or> res_status res = 403 \<Longrightarrow>
   handleResponse res w = (Inl (Error ''Session expired''), (logout w)\<lparr>href := ''/login''\<rparr>)"
  by (simp add: handleResponse_def)


lemma unauthorized_not_ok: "res_status res = 401 \<or> res_status res = 403 \<Longrightarrow> \<not> ok res"
  by (auto simp add: ok_def)

lemma submit_unauthorized:
  "res_status res = 401 \<or> res_status res = 403 \<Longrightarrow>
   submit fb (Inr res) w = (Inl (Error ''Session expired''), (logout w)\<lparr>href := ''/login''\<rparr>)"
  by (simp add: submit_def handleResponse_unauthorized)






lemma logout_clears: "getToken (logout w) = None \<and> getEmail (logout w) = None"
  by (simp add: getToken_def getEmail_def logout_def)

lemma trim_nonempty: "trim s \<noteq> [] \<Longrightarrow> \<exists>c \<in> set s. \<not> is_space c"
  by (auto simp add: trim_def dropWhile_eq_Nil_conv dest: set_dropWhileD)



section \<open>The claims about the event stream\<close>

text \<open>
  Claim C2. The progress lines the client holds are the data of the \<open>message\<close> events
  that reached it, in the order they came: from the start of a stream the list is exactly
  that sequence; from any state the run appends exactly that sequence; and one event
  changes the list only by appending its data, when it is a \<open>message\<close> event on a live
  stream, so that no line is lost, repeated or moved and nothing else touches the list.
\<close>

theorem progress_lines_are_the_messages:
  "lines (useJobSSE_run evs useJobSSE_start) =
     map ev_data (filter (\<lambda>e. ev_type e = ''message'') (delivered useJobSSE_start evs))
   \<and> lines (useJobSSE_run evs st) =
     lines st @ map ev_data (filter (\<lambda>e. ev_type e = ''message'') (delivered st evs))
   \<and> lines (dispatch e st) =
     (if es_open st \<and> ev_type e = ''message'' then lines st @ [ev_data e] else lines st)"
  by (simp add: lines_run lines_dispatch useJobSSE_start_def)

text \<open>
  Claim C1. On a stream of the shape the specification gives, with a warning in mid-job
  before the terminal event, the client does not receive the \<open>done\<close> event: the
  \<open>error\<close> event of the warning runs \<open>es.onerror\<close> as well, which closes the
  \<open>EventSource\<close>. No \<open>done\<close> event is among the events delivered, and the status
  ends failed although the payload of the terminal event is \<open>completed\<close>.
\<close>

theorem warning_before_done_hides_the_outcome:
  "job_stream [LogLine ''step 1'', Warning ''rate limited'', LogLine ''step 2''] Completed =
     [message_event ''step 1'', sse_event ''error'' ''rate limited'', message_event ''step 2'',
      sse_event ''done'' ''completed'']
   \<and> delivered useJobSSE_start
       (open_event # job_stream [LogLine ''step 1'', Warning ''rate limited'', LogLine ''step 2''] Completed) =
     [open_event, message_event ''step 1'', sse_event ''error'' ''rate limited'']
   \<and> filter (\<lambda>e. ev_type e = ''done'')
       (delivered useJobSSE_start
         (open_event # job_stream [LogLine ''step 1'', Warning ''rate limited'', LogLine ''step 2''] Completed)) =
     []
   \<and> status (useJobSSE_run
       (open_event # job_stream [LogLine ''step 1'', Warning ''rate limited'', LogLine ''step 2''] Completed)
       useJobSSE_start) = Failed"
  by (simp add: job_stream_def useJobSSE_start_def dispatch_def listeners_def open_event_def
        message_event_def sse_event_def onopen_def onmessage_def error_listener_def
        done_listener_def onerror_def)

text \<open>
  Claim C6. An \<open>error\<close> event that the server names in mid-job does not leave the rest
  of the state alone. The handler \<open>es.onerror\<close> listens for the same event type as the
  listener added for the named event, so both run: the message is recorded, and the
  status is set to failed and the \<open>EventSource\<close> closed. In this stream the line and
  the \<open>done\<close> event that follow the warning never reach the client.
\<close>

theorem named_error_event_closes_the_stream:
  "useJobSSE_run [open_event, message_event ''step 1''] useJobSSE_start =
     \<lparr>lines = [JStr ''step 1''], status = Streaming, error = JNull, es_open = True\<rparr>
   \<and> useJobSSE_run [open_event, message_event ''step 1'', sse_event ''error'' ''rate limited'']
       useJobSSE_start =
     \<lparr>lines = [JStr ''step 1''], status = Failed, error = JStr ''rate limited'', es_open = False\<rparr>
   \<and> useJobSSE_run
       [open_event, message_event ''step 1'', sse_event ''error'' ''rate limited'',
        message_event ''step 2'', sse_event ''done'' ''completed'']
       useJobSSE_start =
     \<lparr>lines = [JStr ''step 1''], status = Failed, error = JStr ''rate limited'', es_open = False\<rparr>"
  by (simp add: useJobSSE_start_def dispatch_def listeners_def open_event_def message_event_def
        sse_event_def onopen_def onmessage_def error_listener_def done_listener_def onerror_def)

text \<open>
  Claim C9. A connection error on a live stream sets the status to failed and closes the
  \<open>EventSource\<close>; the lines are kept. Nothing that comes later reaches a listener or
  changes the state again, so the client does not go back to connecting or streaming.
  For a job on display whose stream was still live, the page is told that the job
  failed: it shows the failure banner and no download button.
\<close>

theorem connection_error_fails_the_job:
  assumes "es_open st"
  shows "dispatch connection_error st = st\<lparr>error := JUndefined, status := Failed, es_open := False\<rparr>
       \<and> delivered (dispatch connection_error st) evs = []
       \<and> useJobSSE_run evs (dispatch connection_error st) = dispatch connection_error st
       \<and> (authChecked p0 \<and> configLoaded p0 \<and> ident \<noteq> [] \<and>
          run_job pre (handleJobStarted ident p0, useJobSSE_start) = (p, st) \<longrightarrow>
            run_job (connection_error # evs) (p, st) =
              (handleDone JobFailed p, dispatch connection_error st)
            \<and> render (handleDone JobFailed p) = ProgressView False True)"
proof -
  let ?st = "dispatch connection_error st"
  have eq: "?st = st\<lparr>error := JUndefined, status := Failed, es_open := False\<rparr>"
    using assms
    by (simp add: dispatch_open connection_error_def onerror_def error_listener_def)
  have cl: "\<not> es_open ?st" by (simp add: eq)
  have page: "run_job (connection_error # evs) (p, st) = (handleDone JobFailed p, ?st)
            \<and> render (handleDone JobFailed p) = ProgressView False True"
    if h: "authChecked p0 \<and> configLoaded p0 \<and> ident \<noteq> [] \<and>
          run_job pre (handleJobStarted ident p0, useJobSSE_start) = (p, st)"
  proof -
    from h have r: "run_job pre (handleJobStarted ident p0, useJobSSE_start) = (p, st)" by blast
    have inv: "in_step (p, st)"
      using in_step_run_job [OF in_step_started, of pre ident p0] r by simp
    with assms have live: "status st = Connecting \<or> status st = Streaming"
      by (simp add: in_step_def)
    have fr: "authChecked p \<and> configLoaded p \<and> jobId p = Some ident"
      using run_job_frame [OF r] h by (simp add: handleJobStarted_def)
    have ch: "status ?st \<noteq> status st" using live by (auto simp add: eq)
    have "run_job (connection_error # evs) (p, st) = run_job evs (handleDone JobFailed p, ?st)"
      using ch by (simp add: Let_def JobProgress_effect_def eq)
    also have "\<dots> = (handleDone JobFailed p, ?st)" using cl by (rule run_job_closed)
    finally have a: "run_job (connection_error # evs) (p, st) = (handleDone JobFailed p, ?st)" .
    have b: "render (handleDone JobFailed p) = ProgressView False True"
      using fr h by (simp add: render_def handleDone_def)
    from a b show ?thesis by blast
  qed
  from eq delivered_closed [OF cl] run_closed [OF cl] page show ?thesis by blast
qed

theorem connection_error_fails_the_job_witness:
  "es_open \<lparr>lines = [JStr ''step 1''], status = Streaming, error = JNull, es_open = True\<rparr>
   \<and> dispatch connection_error
       \<lparr>lines = [JStr ''step 1''], status = Streaming, error = JNull, es_open = True\<rparr> =
       \<lparr>lines = [JStr ''step 1''], status = Failed, error = JUndefined, es_open = False\<rparr>
   \<and> useJobSSE_run [open_event, sse_event ''done'' ''completed'']
       (dispatch connection_error
         \<lparr>lines = [JStr ''step 1''], status = Streaming, error = JNull, es_open = True\<rparr>) =
       \<lparr>lines = [JStr ''step 1''], status = Failed, error = JUndefined, es_open = False\<rparr>"
proof -
  let ?st = "\<lparr>lines = [JStr ''step 1''], status = Streaming, error = JNull, es_open = True\<rparr>"
  have h: "es_open ?st" by simp
  note t = connection_error_fails_the_job [OF h, of "[open_event, sse_event ''done'' ''completed'']"]
  from t have d: "dispatch connection_error ?st = ?st\<lparr>error := JUndefined, status := Failed, es_open := False\<rparr>"
    by blast
  then have d': "dispatch connection_error ?st =
      \<lparr>lines = [JStr ''step 1''], status = Failed, error = JUndefined, es_open = False\<rparr>"
    by simp
  from t have "useJobSSE_run [open_event, sse_event ''done'' ''completed''] (dispatch connection_error ?st) =
      dispatch connection_error ?st"
    by blast
  then have r: "useJobSSE_run [open_event, sse_event ''done'' ''completed''] (dispatch connection_error ?st) =
      \<lparr>lines = [JStr ''step 1''], status = Failed, error = JUndefined, es_open = False\<rparr>"
    by (simp only: d')
  from h d' r show ?thesis by blast
qed

text \<open>
  Claim C5. The page offers the download exactly when it shows the progress view of a
  job and has been told that the job completed. For a job started from the form, after
  any events of its stream, the download button is there exactly when the stream has
  ended with status done, which is exactly when a \<open>done\<close> event with data
  \<open>completed\<close> has reached the client; it is not there while the stream is connecting
  or streaming, nor after it has failed, where the failure banner is shown instead.
\<close>

theorem download_only_when_completed:
  assumes "authChecked p0" and "configLoaded p0" and "ident \<noteq> []"
    and "run_job evs (handleJobStarted ident p0, useJobSSE_start) = (p, st)"
  shows "offers_download q =
          (authChecked q \<and> configLoaded q \<and> jobId q \<noteq> None \<and> jobId q \<noteq> Some [] \<and>
           jobDone q \<and> jobStatus q = Finished Completed)
       \<and> render p = ProgressView (status st = Done) (status st = Failed)
       \<and> offers_download p = (status st = Done)
       \<and> (status st = Done \<longleftrightarrow>
            (\<exists>d \<in> set (delivered useJobSSE_start evs). ev_type d = ''done'' \<and> ev_data d = JStr ''completed''))
       \<and> ((status st = Connecting \<or> status st = Streaming \<or> status st = Failed) \<longrightarrow> \<not> offers_download p)"
proof -
  have inv: "in_step (p, st)"
    using in_step_run_job [OF in_step_started, of evs ident p0] assms(4) by simp
  have fr: "authChecked p \<and> configLoaded p \<and> jobId p = Some ident"
    using run_job_frame [OF assms(4)] assms(1,2) by (simp add: handleJobStarted_def)
  have r: "render p = ProgressView (status st = Done) (status st = Failed)"
    using inv fr assms(3) by (auto simp add: in_step_def render_def split: if_splits)
  have st: "st = useJobSSE_run evs useJobSSE_start"
    using snd_run_job [of evs "handleJobStarted ident p0" useJobSSE_start] assms(4) by simp
  have d: "status st = Done \<longleftrightarrow>
            (\<exists>d \<in> set (delivered useJobSSE_start evs). ev_type d = ''done'' \<and> ev_data d = JStr ''completed'')"
    unfolding st by (subst status_run_Done) (simp_all add: useJobSSE_start_def)
  have o: "offers_download p = (status st = Done)"
    using r by (simp add: offers_download_def)
  from offers_download_iff [of q] r o d show ?thesis by (cases "status st") simp_all
qed




theorem download_only_when_completed_witness:
  "authChecked \<lparr>authChecked = True, configLoaded = True, jobId = None, jobDone = False, jobStatus = Running\<rparr>
   \<and> configLoaded \<lparr>authChecked = True, configLoaded = True, jobId = None, jobDone = False, jobStatus = Running\<rparr>
   \<and> ''job-1'' \<noteq> []
   \<and> run_job [open_event, message_event ''step 1'', sse_event ''done'' ''completed'']
       (handleJobStarted ''job-1''
          \<lparr>authChecked = True, configLoaded = True, jobId = None, jobDone = False, jobStatus = Running\<rparr>,
        useJobSSE_start) =
       (\<lparr>authChecked = True, configLoaded = True, jobId = Some ''job-1'', jobDone = True,
          jobStatus = Finished Completed\<rparr>,
        \<lparr>lines = [JStr ''step 1''], status = Done, error = JNull, es_open = False\<rparr>)
   \<and> offers_download
       \<lparr>authChecked = True, configLoaded = True, jobId = Some ''job-1'', jobDone = True,
          jobStatus = Finished Completed\<rparr>"
proof -
  let ?pa = "\<lparr>authChecked = True, configLoaded = True, jobId = None, jobDone = False, jobStatus = Running\<rparr>"
  let ?p = "\<lparr>authChecked = True, configLoaded = True, jobId = Some ''job-1'', jobDone = True,
          jobStatus = Finished Completed\<rparr>"
  let ?st = "\<lparr>lines = [JStr ''step 1''], status = Done, error = JNull, es_open = False\<rparr>"
  have h1: "authChecked ?pa" by simp
  have h2: "configLoaded ?pa" by simp
  have h3: "''job-1'' \<noteq> []" by simp
  have h4: "run_job [open_event, message_event ''step 1'', sse_event ''done'' ''completed'']
       (handleJobStarted ''job-1'' ?pa, useJobSSE_start) = (?p, ?st)"
    by (simp add: useJobSSE_start_def handleJobStarted_def dispatch_def listeners_def open_event_def
          message_event_def sse_event_def onopen_def onmessage_def done_listener_def
          JobProgress_effect_def handleDone_def Let_def)
  from download_only_when_completed [OF h1 h2 h3 h4, of ?p]
  have "offers_download ?p = (status ?st = Done)" by blast
  then have "offers_download ?p" by simp
  with h1 h2 h3 h4 show ?thesis by blast
qed


section \<open>The claims about the API client and the forms\<close>

text \<open>
  Claim C8. \<open>handleResponse\<close> on a response with status 401 or 403 removes the stored
  token and email, sets the location to the login page and throws; any other response it
  returns as it is, with the browser state untouched. Each of \<open>submitDub\<close>,
  \<open>submitStory\<close> and \<open>getJob\<close> therefore throws "Session expired" on such a
  status, returns no body, and leaves the browser logged out and on the login page.
\<close>

theorem unauthorized_response_logs_out:
  "handleResponse res w =
     (if res_status res = 401 \<or> res_status res = 403
      then (Inl (Error ''Session expired''), (logout w)\<lparr>href := ''/login''\<rparr>)
      else (Inr res, w))
   \<and> getToken ((logout w)\<lparr>href := ''/login''\<rparr>) = None
   \<and> getEmail ((logout w)\<lparr>href := ''/login''\<rparr>) = None
   \<and> href ((logout w)\<lparr>href := ''/login''\<rparr>) = ''/login''
   \<and> (res_status res = 401 \<or> res_status res = 403 \<longrightarrow>
        submitDub (Inr res) w = (Inl (Error ''Session expired''), (logout w)\<lparr>href := ''/login''\<rparr>)
        \<and> submitStory (Inr res) w = (Inl (Error ''Session expired''), (logout w)\<lparr>href := ''/login''\<rparr>)
        \<and> getJob (Inr res) w = (Inl (Error ''Session expired''), (logout w)\<lparr>href := ''/login''\<rparr>))"
proof -
  have a: "handleResponse res w =
     (if res_status res = 401 \<or> res_status res = 403
      then (Inl (Error ''Session expired''), (logout w)\<lparr>href := ''/login''\<rparr>)
      else (Inr res, w))"
    by (simp add: handleResponse_def)
  have b: "getToken ((logout w)\<lparr>href := ''/login''\<rparr>) = None
      \<and> getEmail ((logout w)\<lparr>href := ''/login''\<rparr>) = None
      \<and> href ((logout w)\<lparr>href := ''/login''\<rparr>) = ''/login''"
    by (simp add: getToken_def getEmail_def logout_def)
  have c: "submitDub (Inr res) w = (Inl (Error ''Session expired''), (logout w)\<lparr>href := ''/login''\<rparr>)
        \<and> submitStory (Inr res) w = (Inl (Error ''Session expired''), (logout w)\<lparr>href := ''/login''\<rparr>)
        \<and> getJob (Inr res) w = (Inl (Error ''Session expired''), (logout w)\<lparr>href := ''/login''\<rparr>)"
    if "res_status res = 401 \<or> res_status res = 403"
    using that
    by (simp add: submitDub_def submitStory_def submit_unauthorized getJob_def handleResponse_unauthorized)
  from a b c show ?thesis by blast
qed

theorem unauthorized_response_logs_out_witness:
  "(res_status \<lparr>res_status = 403, res_body = Some (JObj [(''detail'', JStr ''Forbidden'')])\<rparr> = 401
      \<or> res_status \<lparr>res_status = 403, res_body = Some (JObj [(''detail'', JStr ''Forbidden'')])\<rparr> = 403)
   \<and> fst (getJob (Inr \<lparr>res_status = 403, res_body = Some (JObj [(''detail'', JStr ''Forbidden'')])\<rparr>)
        \<lparr>localStorage = map_of [(''yt_token'', ''t0''), (''yt_email'', ''a@b.c'')], href = ''/''\<rparr>) =
       Inl (Error ''Session expired'')
   \<and> getToken (snd (getJob (Inr \<lparr>res_status = 403, res_body = Some (JObj [(''detail'', JStr ''Forbidden'')])\<rparr>)
        \<lparr>localStorage = map_of [(''yt_token'', ''t0''), (''yt_email'', ''a@b.c'')], href = ''/''\<rparr>)) = None
   \<and> href (snd (getJob (Inr \<lparr>res_status = 403, res_body = Some (JObj [(''detail'', JStr ''Forbidden'')])\<rparr>)
        \<lparr>localStorage = map_of [(''yt_token'', ''t0''), (''yt_email'', ''a@b.c'')], href = ''/''\<rparr>)) = ''/login''"
proof -
  let ?r = "\<lparr>res_status = 403, res_body = Some (JObj [(''detail'', JStr ''Forbidden'')])\<rparr>"
  let ?w = "\<lparr>localStorage = map_of [(''yt_token'', ''t0''), (''yt_email'', ''a@b.c'')], href = ''/''\<rparr>"
  have h: "res_status ?r = 401 \<or> res_status ?r = 403" by simp
  note t = unauthorized_response_logs_out [of ?r ?w]
  from t h have g: "getJob (Inr ?r) ?w = (Inl (Error ''Session expired''), (logout ?w)\<lparr>href := ''/login''\<rparr>)"
    by blast
  from t have k: "getToken ((logout ?w)\<lparr>href := ''/login''\<rparr>) = None
      \<and> href ((logout ?w)\<lparr>href := ''/login''\<rparr>) = ''/login''"
    by blast
  from h k show ?thesis by (simp only: g fst_conv snd_conv)
qed




text \<open>
  Claim C10. The request that the story form builds has exactly one of \<open>text\<close> and
  \<open>theme\<close> defined. In text mode \<open>text\<close> is the pasted story and \<open>theme\<close> and
  \<open>keyword\<close> are \<open>undefined\<close>; in theme mode \<open>text\<close> is \<open>undefined\<close>, \<open>theme\<close>
  is the selected theme, and \<open>keyword\<close> is there exactly when it is not empty. When
  the submit button is enabled in text mode, the story sent is not blank.
\<close>

theorem story_request_has_one_source:
  "(story_text (StoryForm_params f) = None) \<noteq> (theme (StoryForm_params f) = None)
   \<and> (form_mode f = TextMode \<longrightarrow>
        story_text (StoryForm_params f) = Some (form_text f)
        \<and> theme (StoryForm_params f) = None
        \<and> keyword (StoryForm_params f) = None)
   \<and> (form_mode f = ThemeMode \<longrightarrow>
        story_text (StoryForm_params f) = None
        \<and> theme (StoryForm_params f) = Some (form_theme f)
        \<and> keyword (StoryForm_params f) =
            (if form_keyword f \<noteq> [] then Some (form_keyword f) else None))
   \<and> (form_mode f = TextMode \<and> isValid f \<longrightarrow> (\<exists>c \<in> set (form_text f). \<not> is_space c))"
proof -
  have a: "(story_text (StoryForm_params f) = None) \<noteq> (theme (StoryForm_params f) = None)"
    by (cases "form_mode f") (simp_all add: StoryForm_params_def)
  have b: "form_mode f = TextMode \<longrightarrow>
        story_text (StoryForm_params f) = Some (form_text f)
        \<and> theme (StoryForm_params f) = None
        \<and> keyword (StoryForm_params f) = None"
    by (simp add: StoryForm_params_def)
  have c: "form_mode f = ThemeMode \<longrightarrow>
        story_text (StoryForm_params f) = None
        \<and> theme (StoryForm_params f) = Some (form_theme f)
        \<and> keyword (StoryForm_params f) =
            (if form_keyword f \<noteq> [] then Some (form_keyword f) else None)"
    by (simp add: StoryForm_params_def)
  have d: "form_mode f = TextMode \<and> isValid f \<longrightarrow> (\<exists>c \<in> set (form_text f). \<not> is_space c)"
    by (auto simp add: isValid_def dest: trim_nonempty)
  from a b c d show ?thesis by blast
qed

theorem story_request_has_one_source_witness:
  "form_mode \<lparr>form_mode = ThemeMode, form_theme = ''aesop'', form_keyword = ''tortoise'',
       form_text = ''Once upon a time'', form_targetLang = ''hi-IN'', form_speaker = [],
       form_mood = ''default''\<rparr> = ThemeMode
   \<and> story_text (StoryForm_params \<lparr>form_mode = ThemeMode, form_theme = ''aesop'', form_keyword = ''tortoise'',
       form_text = ''Once upon a time'', form_targetLang = ''hi-IN'', form_speaker = [],
       form_mood = ''default''\<rparr>) = None
   \<and> theme (StoryForm_params \<lparr>form_mode = ThemeMode, form_theme = ''aesop'', form_keyword = ''tortoise'',
       form_text = ''Once upon a time'', form_targetLang = ''hi-IN'', form_speaker = [],
       form_mood = ''default''\<rparr>) = Some ''aesop''
   \<and> keyword (StoryForm_params \<lparr>form_mode = ThemeMode, form_theme = ''aesop'', form_keyword = ''tortoise'',
       form_text = ''Once upon a time'', form_targetLang = ''hi-IN'', form_speaker = [],
       form_mood = ''default''\<rparr>) = Some ''tortoise''
   \<and> form_mode \<lparr>form_mode = TextMode, form_theme = ''aesop'', form_keyword = ''tortoise'',
       form_text = ''Once'', form_targetLang = ''hi-IN'', form_speaker = [],
       form_mood = ''default''\<rparr> = TextMode
   \<and> isValid \<lparr>form_mode = TextMode, form_theme = ''aesop'', form_keyword = ''tortoise'',
       form_text = ''Once'', form_targetLang = ''hi-IN'', form_speaker = [],
       form_mood = ''default''\<rparr>
   \<and> story_text (StoryForm_params \<lparr>form_mode = TextMode, form_theme = ''aesop'', form_keyword = ''tortoise'',
       form_text = ''Once'', form_targetLang = ''hi-IN'', form_speaker = [],
       form_mood = ''default''\<rparr>) = Some ''Once''
   \<and> keyword (StoryForm_params \<lparr>form_mode = TextMode, form_theme = ''aesop'', form_keyword = ''tortoise'',
       form_text = ''Once'', form_targetLang = ''hi-IN'', form_speaker = [],
       form_mood = ''default''\<rparr>) = None"
proof -
  let ?f = "\<lparr>form_mode = ThemeMode, form_theme = ''aesop'', form_keyword = ''tortoise'',
       form_text = ''Once upon a time'', form_targetLang = ''hi-IN'', form_speaker = [],
       form_mood = ''default''\<rparr>"
  let ?g = "\<lparr>form_mode = TextMode, form_theme = ''aesop'', form_keyword = ''tortoise'',
       form_text = ''Once'', form_targetLang = ''hi-IN'', form_speaker = [],
       form_mood = ''default''\<rparr>"
  have h1: "form_mode ?f = ThemeMode" by simp
  have h2: "form_mode ?g = TextMode" by simp
  have h3: "isValid ?g" by (simp add: isValid_def trim_def is_space_def)
  from story_request_has_one_source [of ?f] h1
  have a: "story_text (StoryForm_params ?f) = None
        \<and> theme (StoryForm_params ?f) = Some (form_theme ?f)
        \<and> keyword (StoryForm_params ?f) =
            (if form_keyword ?f \<noteq> [] then Some (form_keyword ?f) else None)"
    by blast
  then have a': "story_text (StoryForm_params ?f) = None
        \<and> theme (StoryForm_params ?f) = Some ''aesop''
        \<and> keyword (StoryForm_params ?f) = Some ''tortoise''"
    by simp
  from story_request_has_one_source [of ?g] h2
  have b: "story_text (StoryForm_params ?g) = Some (form_text ?g)
        \<and> keyword (StoryForm_params ?g) = None"
    by blast
  then have b': "story_text (StoryForm_params ?g) = Some ''Once''
        \<and> keyword (StoryForm_params ?g) = None"
    by simp
  from h1 h2 h3 a' b' show ?thesis by blast
qed

end
